theory Spec2Isabelle
  imports Main "HOL-Library.Sublist"
begin

section \<open>Query builder (\<open>Audible.create_query\<close>, \<open>__init__.py\<close>)\<close>

text \<open>
  The class constants of \<open>Audible\<close> that the query builder concatenates.
\<close>

definition ID_NAME :: string where
  "ID_NAME = ''audible''"

definition AUDIBLE_API_URL :: string where
  "AUDIBLE_API_URL = ''https://api.audible.com''"

definition AUDNEXUS_URL :: string where
  "AUDNEXUS_URL = ''https://api.audnex.us''"

definition AUDIBLE_API_PATH :: string where
  "AUDIBLE_API_PATH = ''/1.0/catalog/products?''"

definition AUDNEXUS_PATH :: string where
  "AUDNEXUS_PATH = ''/books/''"

definition AUDIBLE_API_QUERY :: string where
  "AUDIBLE_API_QUERY = ''num_results=25&products_sort_by=Relevance''"

definition AUDIBLE_API_TITLE_QUERY :: string where
  "AUDIBLE_API_TITLE_QUERY = ''&title=''"

definition AUDIBLE_API_AUTHOR_QUERY :: string where
  "AUDIBLE_API_AUTHOR_QUERY = ''&author=''"

text \<open>
  The arguments of \<open>create_query\<close> are a string, a list of strings, or Python's
  \<open>None\<close>; \<open>given x\<close> is the truth value Python's \<open>if x:\<close> computes for such an
  argument: false for \<open>None\<close> and for the empty string or list.
\<close>

definition given :: "'a list option \<Rightarrow> bool" where
  "given x = (case x of None \<Rightarrow> False | Some v \<Rightarrow> v \<noteq> [])"

text \<open>
  \<open>val x\<close> is the string or list that a given argument holds. The source reads an
  argument's value only under \<open>if x:\<close>, where \<open>val\<close> is that value.
\<close>

definition val :: "'a list option \<Rightarrow> 'a list" where
  "val x = (case x of None \<Rightarrow> [] | Some v \<Rightarrow> v)"

text \<open>
  \<open>create_query(self, log, title=None, authors=None, identifiers={}, asin=None)\<close>.
  The identifier map is a dictionary from identifier names to strings,
  \<open>identifiers.get(self.ID_NAME, None)\<close> is its lookup. The logger is not used by
  the body. The result \<open>None\<close> is Python's \<open>None\<close>.
\<close>

definition create_query ::
  "string option \<Rightarrow> string list option \<Rightarrow> (string \<rightharpoonup> string) \<Rightarrow> string option
    \<Rightarrow> string option" where
  "create_query title authors identifiers asin =
     (let audible_id = identifiers ID_NAME;
          audible_id = (if given asin then asin else audible_id);
          q = [];
          q = (if given audible_id then AUDNEXUS_URL @ AUDNEXUS_PATH @ val audible_id
               else if given title \<or> given authors then
                 (let q = AUDIBLE_API_URL @ AUDIBLE_API_PATH @ AUDIBLE_API_QUERY;
                      q = (if given title then q @ AUDIBLE_API_TITLE_QUERY @ val title else q);
                      q = (if given authors
                           then (case val authors of
                                   a # _ \<Rightarrow> q @ AUDIBLE_API_AUTHOR_QUERY @ a
                                 | [] \<Rightarrow> q)
                           else q)
                  in q)
               else q)
      in if q = [] then None else Some q)"

section \<open>Values of the detail document (\<open>json.loads\<close>)\<close>

text \<open>
  What \<open>json.loads\<close> returns: \<open>None\<close>, a bool, an int, a float, a string, a list
  or a dictionary. Floats stay abstract (the type \<open>'f\<close>); what the code asks of them
  is in the record \<open>host\<close> below. A dictionary is the list of its items in order,
  with distinct keys; a lookup takes the first item with the key.
\<close>

datatype 'f json =
    JNull
  | JBool bool
  | JInt int
  | JFloat 'f
  | JStr string
  | JArr "'f json list"
  | JObj "(string \<times> 'f json) list"

text \<open>The exceptions that the modelled code can raise.\<close>

datatype pyerr =
    KeyError
  | TypeError
  | IndexError
  | ValueError
  | AttributeError
  | OverflowError
  | UnboundLocalError

text \<open>
  Sequencing of statements that can raise: the first exception ends the block.
\<close>

definition bind :: "pyerr + 'a \<Rightarrow> ('a \<Rightarrow> pyerr + 'b) \<Rightarrow> pyerr + 'b" where
  "bind m f = (case m of Inl e \<Rightarrow> Inl e | Inr x \<Rightarrow> f x)"

text \<open>
  The record that the worker fills: calibre's \<open>Metadata(title, authors)\<close> with the
  attributes \<open>parse_details\<close> assigns. \<open>None\<close> is an attribute this code has not
  assigned.
\<close>

record 'f metadata =
  mi_title :: "'f json"
  mi_authors :: "'f json list"
  mi_identifiers :: "(string \<times> 'f json) list"
  mi_series :: "'f json option"
  mi_series_index :: "'f option"
  mi_rating :: "'f option"
  mi_has_cover :: "bool option"
  mi_tags :: "string list option"
  mi_publisher :: "'f json option"
  mi_pubdate :: "(int \<times> int \<times> int) option"
  mi_language :: "string option"
  mi_comments :: "string option"
  mi_source_relevance :: "nat option"

definition Metadata :: "'f json \<Rightarrow> 'f json list \<Rightarrow> 'f metadata" where
  "Metadata t a =
     \<lparr>mi_title = t, mi_authors = a, mi_identifiers = [], mi_series = None,
      mi_series_index = None, mi_rating = None, mi_has_cover = None, mi_tags = None,
      mi_publisher = None, mi_pubdate = None, mi_language = None, mi_comments = None,
      mi_source_relevance = None\<rparr>"

definition set_identifier :: "string \<Rightarrow> 'f json \<Rightarrow> 'f metadata \<Rightarrow> 'f metadata" where
  "set_identifier k v mi = mi\<lparr>mi_identifiers := (k, v) # filter (\<lambda>p. fst p \<noteq> k) (mi_identifiers mi)\<rparr>"

text \<open>
  What the code uses of Python's library and of calibre, taken as parameters:
  \<^item> \<open>float_is_zero x\<close>: \<open>x == 0.0\<close>, the truth value of a float is its negation;
  \<^item> \<open>float_of_int n\<close>: \<open>float(n)\<close>, \<open>None\<close> when it raises \<open>OverflowError\<close>;
  \<^item> \<open>float_of_str s\<close>: \<open>float(s)\<close>, \<open>None\<close> when it raises \<open>ValueError\<close>;
  \<^item> \<open>strptime s\<close>: year, month and day of
    \<open>datetime.datetime.strptime(s, '%Y-%m-%dT%H:%M:%S.%fZ')\<close>, \<open>None\<close> when it raises
    \<open>ValueError\<close>;
  \<^item> \<open>str_lower s\<close> and \<open>str_capitalize s\<close>: \<open>s.lower()\<close> and \<open>s.capitalize()\<close>,
    Python's case mappings over all of Unicode;
  \<^item> \<open>clean_downloaded_metadata\<close>: calibre's normalisation of a record
    (\<open>Source.clean_downloaded_metadata\<close>), which works on the record in place.
\<close>

record 'f host =
  float_is_zero :: "'f \<Rightarrow> bool"
  float_of_int :: "int \<Rightarrow> 'f option"
  float_of_str :: "string \<Rightarrow> 'f option"
  strptime :: "string \<Rightarrow> (int \<times> int \<times> int) option"
  str_lower :: "string \<Rightarrow> string"
  str_capitalize :: "string \<Rightarrow> string"
  clean_downloaded_metadata :: "'f metadata \<Rightarrow> 'f metadata"

text \<open>Python's truth value of a JSON value (\<open>bool(v)\<close>, \<open>if v:\<close>, \<open>not v\<close>).\<close>

fun truthy :: "'f host \<Rightarrow> 'f json \<Rightarrow> bool" where
  "truthy h JNull = False"
| "truthy h (JBool b) = b"
| "truthy h (JInt n) = (n \<noteq> 0)"
| "truthy h (JFloat x) = (\<not> float_is_zero h x)"
| "truthy h (JStr s) = (s \<noteq> [])"
| "truthy h (JArr xs) = (xs \<noteq> [])"
| "truthy h (JObj kvs) = (kvs \<noteq> [])"

text \<open>
  \<open>v[key]\<close> with a string key: a dictionary gives the value or \<open>KeyError\<close>, any
  other value \<open>TypeError\<close> (a list or a string wants integer indices, the rest is
  not subscriptable).
\<close>

fun py_getitem :: "'f json \<Rightarrow> string \<Rightarrow> pyerr + 'f json" where
  "py_getitem (JObj kvs) k = (case map_of kvs k of None \<Rightarrow> Inl KeyError | Some v \<Rightarrow> Inr v)"
| "py_getitem _ k = Inl TypeError"

text \<open>
  \<open>for x in v\<close>: a list gives its elements, a dictionary its keys, a string its
  characters as one-character strings; the rest is not iterable.
\<close>

fun py_iter :: "'f json \<Rightarrow> pyerr + 'f json list" where
  "py_iter (JArr xs) = Inr xs"
| "py_iter (JObj kvs) = Inr (map (\<lambda>p. JStr (fst p)) kvs)"
| "py_iter (JStr s) = Inr (map (\<lambda>c. JStr [c]) s)"
| "py_iter _ = Inl TypeError"

text \<open>
  \<open>float(v)\<close>: a string is parsed, an int or bool converted, a float returned;
  \<open>None\<close>, lists and dictionaries raise \<open>TypeError\<close>.
\<close>

fun py_float :: "'f host \<Rightarrow> 'f json \<Rightarrow> pyerr + 'f" where
  "py_float h (JStr s) = (case float_of_str h s of None \<Rightarrow> Inl ValueError | Some x \<Rightarrow> Inr x)"
| "py_float h (JInt n) = (case float_of_int h n of None \<Rightarrow> Inl OverflowError | Some x \<Rightarrow> Inr x)"
| "py_float h (JBool b) =
     (case float_of_int h (if b then 1 else 0) of None \<Rightarrow> Inl OverflowError | Some x \<Rightarrow> Inr x)"
| "py_float h (JFloat x) = Inr x"
| "py_float h _ = Inl TypeError"

subsection \<open>String methods\<close>

text \<open>
  \<open>s.split(' ')\<close>: the pieces of \<open>s\<close> between single space characters. Two
  spaces in a row give an empty piece, and the result is never empty.
\<close>

fun split_sp :: "string \<Rightarrow> string list" where
  "split_sp [] = [[]]"
| "split_sp (c # cs) =
     (if c = CHR '' '' then [] # split_sp cs
      else (case split_sp cs of p # ps \<Rightarrow> (c # p) # ps | [] \<Rightarrow> [[c]]))"

text \<open>\<open>v.split(' ')\<close> on a JSON value: only a string has the method.\<close>

fun py_split :: "'f json \<Rightarrow> pyerr + string list" where
  "py_split (JStr s) = Inr (split_sp s)"
| "py_split _ = Inl AttributeError"

text \<open>\<open>xs[i]\<close> for a list and an index \<open>i \<ge> 0\<close>.\<close>

definition py_index :: "'a list \<Rightarrow> nat \<Rightarrow> pyerr + 'a" where
  "py_index xs i = (if i < length xs then Inr (xs ! i) else Inl IndexError)"

text \<open>\<open>v.capitalize()\<close> on a JSON value: only a string has the method.\<close>

fun py_capitalize :: "'f host \<Rightarrow> 'f json \<Rightarrow> pyerr + string" where
  "py_capitalize h (JStr s) = Inr (str_capitalize h s)"
| "py_capitalize h _ = Inl AttributeError"

text \<open>
  Whether a value can be the key of a dictionary: lists and dictionaries are not
  hashable, and storing under one raises \<open>TypeError\<close>.
\<close>

fun hashable :: "'f json \<Rightarrow> bool" where
  "hashable (JArr xs) = False"
| "hashable (JObj kvs) = False"
| "hashable _ = True"

text \<open>
  \<open>sep.join(xs)\<close>: every element has to be a string, else \<open>TypeError\<close>.
\<close>

fun join_strs :: "string \<Rightarrow> string list \<Rightarrow> string" where
  "join_strs sep [] = []"
| "join_strs sep [x] = x"
| "join_strs sep (x # y # ys) = x @ sep @ join_strs sep (y # ys)"

fun as_strs :: "'f json list \<Rightarrow> pyerr + string list" where
  "as_strs [] = Inr []"
| "as_strs (JStr s # vs) = bind (as_strs vs) (\<lambda>ss. Inr (s # ss))"
| "as_strs (_ # vs) = Inl TypeError"

definition py_join :: "string \<Rightarrow> 'f json list \<Rightarrow> pyerr + string" where
  "py_join sep vs = bind (as_strs vs) (\<lambda>ss. Inr (join_strs sep ss))"

section \<open>Detail parsing (\<open>Worker\<close>, \<open>worker.py\<close>)\<close>

subsection \<open>Field parsers\<close>

text \<open>
  The loop shared by \<open>parse_authors\<close>, \<open>parse_narrators\<close> and \<open>parse_tags\<close>:
  \<open>for x in items: acc.append(x["name"])\<close>.
\<close>

fun append_names :: "'f json list \<Rightarrow> 'f json list \<Rightarrow> pyerr + 'f json list" where
  "append_names acc [] = Inr acc"
| "append_names acc (x # xs) =
     bind (py_getitem x ''name'') (\<lambda>n. append_names (acc @ [n]) xs)"

definition parse_authors :: "'f json \<Rightarrow> pyerr + 'f json list" where
  "parse_authors root =
     bind (py_getitem root ''authors'') (\<lambda>node.
     bind (py_iter node) (\<lambda>items.
     append_names [] items))"

definition parse_narrators :: "'f json \<Rightarrow> pyerr + 'f json list" where
  "parse_narrators root =
     bind (py_getitem root ''narrators'') (\<lambda>node.
     bind (py_iter node) (\<lambda>items.
     append_names [] items))"

text \<open>
  \<open>parse_series\<close> returns the pair \<open>(series, series_index)\<close>; \<open>(None, None)\<close> is
  \<open>(JNull, None)\<close>.
\<close>

definition parse_series :: "'f host \<Rightarrow> 'f json \<Rightarrow> pyerr + ('f json \<times> 'f option)" where
  "parse_series h root =
     bind (py_getitem root ''seriesPrimary'') (\<lambda>series_node.
     if \<not> truthy h series_node then Inr (JNull, None)
     else
       bind (py_getitem series_node ''name'') (\<lambda>series_name.
       bind (py_getitem series_node ''position'') (\<lambda>position.
       bind (py_split position) (\<lambda>series_split.
       bind (py_index series_split 1) (\<lambda>token.
       bind (py_float h (JStr token)) (\<lambda>series_index.
       Inr (series_name, Some series_index)))))))"

text \<open>
  \<open>_convert_genres_to_calibre_tags\<close>. The genre table
  \<open>cfg.plugin_prefs[cfg.STORE_NAME][cfg.KEY_GENRE_MAPPINGS]\<close> is a dictionary from
  genre names to lists of tags, given as the list of its items. \<open>calibre_tag_map\<close>
  is the dictionary built from the items with lowered keys, a later item replacing
  an earlier one with the same lowered key.
\<close>

type_synonym genre_table = "(string \<times> string list) list"

definition calibre_tag_map :: "'f host \<Rightarrow> genre_table \<Rightarrow> (string \<rightharpoonup> string list)" where
  "calibre_tag_map h calibre_tag_lookup =
     fold (\<lambda>(k, v) m. m(str_lower h k \<mapsto> v)) calibre_tag_lookup Map.empty"

text \<open>\<open>for tag in tags: if tag not in tags_to_add: tags_to_add.append(tag)\<close>\<close>

fun add_tags :: "string list \<Rightarrow> string list \<Rightarrow> string list" where
  "add_tags tags_to_add [] = tags_to_add"
| "add_tags tags_to_add (tag # tags) =
     add_tags (if tag \<notin> set tags_to_add then tags_to_add @ [tag] else tags_to_add) tags"

text \<open>
  The loop over \<open>genre_tags\<close>; \<open>genre_tag.lower()\<close> raises \<open>AttributeError\<close> on a
  value that is not a string.
\<close>

fun convert_loop ::
  "'f host \<Rightarrow> (string \<rightharpoonup> string list) \<Rightarrow> string list \<Rightarrow> 'f json list
    \<Rightarrow> pyerr + string list" where
  "convert_loop h m tags_to_add [] = Inr tags_to_add"
| "convert_loop h m tags_to_add (JStr genre_tag # genre_tags) =
     (case m (str_lower h genre_tag) of
        None \<Rightarrow> convert_loop h m tags_to_add genre_tags
      | Some tags \<Rightarrow>
          if tags \<noteq> [] then convert_loop h m (add_tags tags_to_add tags) genre_tags
          else convert_loop h m tags_to_add genre_tags)"
| "convert_loop h m tags_to_add (_ # genre_tags) = Inl AttributeError"

definition convert_genres_to_calibre_tags ::
  "'f host \<Rightarrow> genre_table \<Rightarrow> 'f json list \<Rightarrow> pyerr + string list" where
  "convert_genres_to_calibre_tags h calibre_tag_lookup genre_tags =
     convert_loop h (calibre_tag_map h calibre_tag_lookup) [] genre_tags"

text \<open>
  \<open>parse_tags\<close> returns a list of tags, or \<open>None\<close> where the body falls off its
  end.
\<close>

definition parse_tags :: "'f host \<Rightarrow> genre_table \<Rightarrow> 'f json \<Rightarrow> pyerr + string list option" where
  "parse_tags h tbl root =
     bind (py_getitem root ''genres'') (\<lambda>genres_node.
     if truthy h genres_node then
       bind (py_iter genres_node) (\<lambda>items.
       bind (append_names [] items) (\<lambda>genre_tags.
       bind (convert_genres_to_calibre_tags h tbl genre_tags) (\<lambda>calibre_tags.
       if length calibre_tags > 0 then Inr (Some calibre_tags) else Inr None)))
     else Inr None)"

text \<open>
  \<open>_convert_date_text\<close>: the year, month and day of the parsed timestamp, at
  midnight. \<open>strptime\<close> raises \<open>TypeError\<close> on a value that is not a string.
\<close>

fun convert_date_text :: "'f host \<Rightarrow> 'f json \<Rightarrow> pyerr + (int \<times> int \<times> int)" where
  "convert_date_text h (JStr date_text) =
     (case strptime h date_text of None \<Rightarrow> Inl ValueError | Some ymd \<Rightarrow> Inr ymd)"
| "convert_date_text h _ = Inl TypeError"

subsection \<open>The worker and \<open>parse_details\<close>\<close>

text \<open>
  The state \<open>parse_details\<close> works on: the attributes of the \<open>Worker\<close> object (\<open>self.url\<close> is
  \<open>self_url\<close>, and so on), among them the result queue it shares with the
  dispatcher (oldest record first), and the two
  caches of the plugin object (\<open>cache_identifier_to_cover_url\<close>,
  \<open>cache_isbn_to_identifier\<close>), each a dictionary. An entry is found under the
  JSON value it was stored under (Python also takes the numbers \<open>1\<close>, \<open>1.0\<close> and
  \<open>True\<close> for one key; every lookup modelled here uses the value that was
  stored, or a string).
\<close>

record 'f worker =
  self_url :: string
  self_relevance :: nat
  self_cover_url :: "'f json"
  self_audible_id :: "'f json"
  self_isbn :: "'f json"
  self_result_queue :: "'f metadata list"
  identifier_to_cover_url :: "'f json \<rightharpoonup> 'f json"
  isbn_to_identifier :: "'f json \<rightharpoonup> 'f json"

text \<open>
  \<open>Worker.__init__\<close>: \<open>self.cover_url = self.audible_id = self.isbn = None\<close>; the
  queue and the caches are the shared objects passed in.
\<close>

definition Worker ::
  "string \<Rightarrow> 'f metadata list \<Rightarrow> nat \<Rightarrow> ('f json \<rightharpoonup> 'f json) \<Rightarrow> ('f json \<rightharpoonup> 'f json)
    \<Rightarrow> 'f worker" where
  "Worker u q r covers isbns =
     \<lparr>self_url = u, self_relevance = r, self_cover_url = JNull, self_audible_id = JNull,
      self_isbn = JNull, self_result_queue = q, identifier_to_cover_url = covers,
      isbn_to_identifier = isbns\<rparr>"

text \<open>
  The \<open>try\<close> blocks of \<open>parse_details\<close>, one definition each. A block whose body
  raises leaves the record as it was (its handler only logs). A local variable
  assigned in a block is \<open>None\<close> here while it is unbound: the handlers of the
  \<open>narrators\<close> and of the \<open>summary\<close> block do not assign the variable (the first
  assigns \<open>authors = []\<close>, which nothing reads afterwards).
\<close>

definition try_asin :: "'f json \<Rightarrow> 'f json" where
  "try_asin root = (case py_getitem root ''asin'' of Inl e \<Rightarrow> JNull | Inr v \<Rightarrow> v)"

definition try_title :: "'f json \<Rightarrow> 'f json" where
  "try_title root = (case py_getitem root ''title'' of Inl e \<Rightarrow> JNull | Inr v \<Rightarrow> v)"

definition try_authors :: "'f json \<Rightarrow> 'f json list" where
  "try_authors root = (case parse_authors root of Inl e \<Rightarrow> [] | Inr a \<Rightarrow> a)"

definition try_narrators :: "'f json \<Rightarrow> 'f json list option" where
  "try_narrators root = (case parse_narrators root of Inl e \<Rightarrow> None | Inr n \<Rightarrow> Some n)"

definition try_series :: "'f host \<Rightarrow> 'f json \<Rightarrow> 'f metadata \<Rightarrow> 'f metadata" where
  "try_series h root mi =
     (case parse_series h root of
        Inl e \<Rightarrow> mi
      | Inr (series, series_index) \<Rightarrow>
          if series \<noteq> JNull then mi\<lparr>mi_series := Some series, mi_series_index := series_index\<rparr>
          else mi)"

definition try_rating :: "'f host \<Rightarrow> 'f json \<Rightarrow> 'f metadata \<Rightarrow> 'f metadata" where
  "try_rating h root mi =
     (case bind (py_getitem root ''rating'') (py_float h) of
        Inl e \<Rightarrow> mi
      | Inr x \<Rightarrow> mi\<lparr>mi_rating := Some x\<rparr>)"

definition try_summary :: "'f json \<Rightarrow> 'f json option" where
  "try_summary root = (case py_getitem root ''summary'' of Inl e \<Rightarrow> None | Inr v \<Rightarrow> Some v)"

definition try_cover :: "'f json \<Rightarrow> 'f worker \<Rightarrow> 'f worker" where
  "try_cover root w =
     (case py_getitem root ''image'' of Inl e \<Rightarrow> w | Inr v \<Rightarrow> w\<lparr>self_cover_url := v\<rparr>)"

definition try_tags :: "'f host \<Rightarrow> genre_table \<Rightarrow> 'f json \<Rightarrow> 'f metadata \<Rightarrow> 'f metadata" where
  "try_tags h tbl root mi =
     (case parse_tags h tbl root of
        Inl e \<Rightarrow> mi
      | Inr None \<Rightarrow> mi
      | Inr (Some tags) \<Rightarrow> mi\<lparr>mi_tags := Some tags\<rparr>)"

definition try_publisher :: "'f json \<Rightarrow> 'f metadata \<Rightarrow> 'f metadata" where
  "try_publisher root mi =
     (case py_getitem root ''publisherName'' of
        Inl e \<Rightarrow> mi
      | Inr v \<Rightarrow> mi\<lparr>mi_publisher := Some v\<rparr>)"

definition try_pubdate :: "'f host \<Rightarrow> 'f json \<Rightarrow> 'f metadata \<Rightarrow> 'f metadata" where
  "try_pubdate h root mi =
     (case bind (py_getitem root ''releaseDate'') (convert_date_text h) of
        Inl e \<Rightarrow> mi
      | Inr d \<Rightarrow> mi\<lparr>mi_pubdate := Some d\<rparr>)"

definition try_language :: "'f host \<Rightarrow> 'f json \<Rightarrow> 'f metadata \<Rightarrow> 'f metadata" where
  "try_language h root mi =
     (case bind (py_getitem root ''language'') (py_capitalize h) of
        Inl e \<Rightarrow> mi
      | Inr l \<Rightarrow> mi\<lparr>mi_language := Some l\<rparr>)"

text \<open>
  Lines 163 to 167, which are under no \<open>try\<close>: reading \<open>narrators\<close> or \<open>summary\<close>
  while it is unbound raises \<open>UnboundLocalError\<close>, \<open>join\<close> and \<open>+\<close> raise
  \<open>TypeError\<close> on a value that is not a string. A bound \<open>narrators\<close> is a list,
  so \<open>narrators is not None\<close> holds; \<open>summary\<close> may be \<open>None\<close> (a JSON \<open>null\<close>).
\<close>

definition narrators_open :: string where
  \<open>narrators_open = ''<p id="narrators">Narrators: ''\<close>

definition build_comments :: "'f json list option \<Rightarrow> 'f json option \<Rightarrow> pyerr + string" where
  "build_comments narrators summary =
     (let commets = [] in
      case narrators of
        None \<Rightarrow> Inl UnboundLocalError
      | Some ns \<Rightarrow>
          bind (py_join '', '' ns) (\<lambda>joined.
          let commets = narrators_open @ joined @ ''</p>'' @ commets in
          case summary of
            None \<Rightarrow> Inl UnboundLocalError
          | Some JNull \<Rightarrow> Inr commets
          | Some (JStr text) \<Rightarrow> Inr (commets @ text)
          | Some _ \<Rightarrow> Inl TypeError))"

text \<open>
  The two caching methods of the plugin object store into a dictionary under the
  given key, which raises \<open>TypeError\<close> for a key that is not hashable. As in
  \<open>parse_details\<close>, the result is the exception, if any, and the state.
\<close>

definition cache_isbn_to_identifier ::
  "'f json \<Rightarrow> 'f json \<Rightarrow> 'f worker \<Rightarrow> pyerr option \<times> 'f worker" where
  "cache_isbn_to_identifier isbn_key identifier w =
     (if hashable isbn_key
      then (None, w\<lparr>isbn_to_identifier := (isbn_to_identifier w)(isbn_key \<mapsto> identifier)\<rparr>)
      else (Some TypeError, w))"

definition cache_identifier_to_cover_url ::
  "'f json \<Rightarrow> 'f json \<Rightarrow> 'f worker \<Rightarrow> pyerr option \<times> 'f worker" where
  "cache_identifier_to_cover_url id_key cover w =
     (if hashable id_key
      then (None, w\<lparr>identifier_to_cover_url := (identifier_to_cover_url w)(id_key \<mapsto> cover)\<rparr>)
      else (Some TypeError, w))"

text \<open>
  Lines 173 to 177: the caching of the identifier's associations, under no
  \<open>try\<close>.
\<close>

definition cache_results :: "'f host \<Rightarrow> 'f worker \<Rightarrow> pyerr option \<times> 'f worker" where
  "cache_results h w =
     (if truthy h (self_audible_id w) then
        (case (if truthy h (self_isbn w)
               then cache_isbn_to_identifier (self_isbn w) (self_audible_id w) w
               else (None, w)) of
           (Some e, w) \<Rightarrow> (Some e, w)
         | (None, w) \<Rightarrow>
             if truthy h (self_cover_url w)
             then cache_identifier_to_cover_url (self_audible_id w) (self_cover_url w) w
             else (None, w))
      else (None, w))"

text \<open>
  \<open>parse_details(self, root)\<close>. The result is the exception that leaves the method
  (\<open>None\<close> when it returns) and the state at that moment. The calls of the logger
  are left out.
\<close>

definition parse_details ::
  "'f host \<Rightarrow> genre_table \<Rightarrow> 'f json \<Rightarrow> 'f worker \<Rightarrow> pyerr option \<times> 'f worker" where
  "parse_details h tbl root w =
     (let audible_id = try_asin root;
          title = try_title root;
          authors = try_authors root
      in
      if \<not> truthy h title \<or> authors = [] \<or> \<not> truthy h audible_id then (None, w)
      else
        (let mi = Metadata title authors;
             mi = set_identifier ''audible'' audible_id mi;
             w = w\<lparr>self_audible_id := audible_id\<rparr>;
             narrators = try_narrators root;
             mi = try_series h root mi;
             mi = try_rating h root mi;
             summary = try_summary root;
             w = try_cover root w;
             mi = mi\<lparr>mi_has_cover := Some (truthy h (self_cover_url w))\<rparr>;
             mi = try_tags h tbl root mi;
             mi = try_publisher root mi;
             mi = try_pubdate h root mi;
             mi = try_language h root mi
         in
         case build_comments narrators summary of
           Inl e \<Rightarrow> (Some e, w)
         | Inr commets \<Rightarrow>
             (let mi = mi\<lparr>mi_comments := Some commets\<rparr>;
                  mi = mi\<lparr>mi_source_relevance := Some (self_relevance w)\<rparr>
              in
              case cache_results h w of
                (Some e, w) \<Rightarrow> (Some e, w)
              | (None, w) \<Rightarrow>
                  (let mi = clean_downloaded_metadata h mi;
                       w = w\<lparr>self_result_queue := self_result_queue w @ [mi]\<rparr>
                   in (None, w)))))"

text \<open>
  \<open>Worker.run\<close> around it catches every exception of \<open>get_details\<close> and logs it, so
  an exception of \<open>parse_details\<close> ends the worker with nothing put on the queue.
\<close>

section \<open>Cover download (\<open>Audible.download_cover\<close>, \<open>__init__.py\<close>)\<close>

text \<open>
  \<open>get_cached_cover_url\<close>: the plugin's cache of cover URLs, read under the
  \<open>audible\<close> identifier (calibre's \<open>cached_identifier_to_cover_url\<close> is the lookup
  in the dictionary that \<open>cache_identifier_to_cover_url\<close> fills).
\<close>

definition get_cached_cover_url ::
  "('f json \<rightharpoonup> 'f json) \<Rightarrow> (string \<rightharpoonup> 'f json) \<Rightarrow> 'f json option" where
  "get_cached_cover_url cache identifiers =
     (case identifiers ID_NAME of None \<Rightarrow> None | Some audible_id \<Rightarrow> cache audible_id)"

text \<open>
  The parameters of
  \<open>identify(self, log, result_queue, abort, title=None, authors=None, identifiers={}, timeout=30)\<close>.
  The signature has no \<open>**kwargs\<close>: a call is bound to these names, and a keyword
  argument that names none of them raises \<open>TypeError\<close> before the body runs.
\<close>

definition identify_params :: "string list" where
  "identify_params =
     [''self'', ''log'', ''result_queue'', ''abort'', ''title'', ''authors'', ''identifiers'',
      ''timeout'']"

definition call_with_keywords :: "string list \<Rightarrow> string list \<Rightarrow> (pyerr + 'a) \<Rightarrow> pyerr + 'a" where
  "call_with_keywords params keywords body =
     (if set keywords \<subseteq> set params then body else Inl TypeError)"

text \<open>
  The loop over the sorted results: the first record whose identifier has a cached
  cover URL.
\<close>

fun first_cached :: "('f json \<rightharpoonup> 'f json) \<Rightarrow> 'f metadata list \<Rightarrow> 'f json option" where
  "first_cached cache [] = None"
| "first_cached cache (mi # results) =
     (case get_cached_cover_url cache (map_of (mi_identifiers mi)) of
        None \<Rightarrow> first_cached cache results
      | Some cached_url \<Rightarrow> Some cached_url)"

text \<open>
  \<open>download_cover\<close>. Taken as parameters: what the body of \<open>identify\<close> would do
  once called (the records it leaves on the queue and the cache afterwards, or an
  exception), the sort by calibre's \<open>identify_results_keygen\<close>, the download
  \<open>br.open_novisit(cached_url).read()\<close> (\<open>None\<close> when it raises), and the abort
  flag. The result is \<open>Inr (Some cdata)\<close> when \<open>(self, cdata)\<close> is put on the result
  queue, \<open>Inr None\<close> when the method returns without a cover, and \<open>Inl e\<close> when the
  exception \<open>e\<close> leaves the method.
\<close>

definition download_cover ::
  "('f json \<rightharpoonup> 'f json) \<Rightarrow> (pyerr + 'f metadata list \<times> ('f json \<rightharpoonup> 'f json))
    \<Rightarrow> ('f metadata list \<Rightarrow> 'f metadata list) \<Rightarrow> ('f json \<Rightarrow> 'b option) \<Rightarrow> bool
    \<Rightarrow> (string \<rightharpoonup> 'f json) \<Rightarrow> pyerr + 'b option" where
  "download_cover cache identify_body sort_results open_novisit abort identifiers =
     (let fetch = (\<lambda>cached_url. if abort then Inr None else Inr (open_novisit cached_url)) in
      case get_cached_cover_url cache identifiers of
        Some cached_url \<Rightarrow> fetch cached_url
      | None \<Rightarrow>
          bind (call_with_keywords identify_params
                  [''title'', ''authors'', ''hiddenauthors'', ''identifiers''] identify_body)
            (\<lambda>(results, cache).
               if abort then Inr None
               else (case first_cached cache (sort_results results) of
                       None \<Rightarrow> Inr None
                     | Some cached_url \<Rightarrow> fetch cached_url)))"

section \<open>Notions of the specification\<close>

text \<open>
  A field of the detail document is present and non-empty: the key is there and
  Python takes its value for true.
\<close>

definition field_present :: "'f host \<Rightarrow> 'f json \<Rightarrow> string \<Rightarrow> bool" where
  "field_present h root k = (case py_getitem root k of Inl e \<Rightarrow> False | Inr v \<Rightarrow> truthy h v)"

text \<open>
  The whitespace-separated tokens of a string, as the specification words the
  series position: the maximal runs of characters that are not whitespace
  (space, tab, line feed, vertical tab, form feed, carriage return).
\<close>

definition is_space :: "char \<Rightarrow> bool" where
  "is_space c = (c \<in> set [CHR '' '', CHR 0x09, CHR 0x0A, CHR 0x0B, CHR 0x0C, CHR 0x0D])"

fun ws_pieces :: "string \<Rightarrow> string list" where
  "ws_pieces [] = [[]]"
| "ws_pieces (c # cs) =
     (if is_space c then [] # ws_pieces cs
      else (case ws_pieces cs of p # ps \<Rightarrow> (c # p) # ps | [] \<Rightarrow> [[c]]))"

definition ws_tokens :: "string \<Rightarrow> string list" where
  "ws_tokens s = filter (\<lambda>t. t \<noteq> []) (ws_pieces s)"

text \<open>
  A list without its repetitions, each element where it is first seen, and the
  tags that the genres of a list map to, in the order of the genres.
\<close>

fun first_seen :: "'a list \<Rightarrow> 'a list" where
  "first_seen [] = []"
| "first_seen (x # xs) = x # filter (\<lambda>y. y \<noteq> x) (first_seen xs)"

definition mapped_tags :: "'f host \<Rightarrow> genre_table \<Rightarrow> string list \<Rightarrow> string list" where
  "mapped_tags h tbl genres =
     concat (map (\<lambda>g. case calibre_tag_map h tbl (str_lower h g) of
                        None \<Rightarrow> [] | Some tags \<Rightarrow> tags) genres)"

section \<open>A host for the worked examples\<close>

text \<open>
  The floats of the examples are whole numbers, each modelled by the integer it
  equals, with \<open>float\<close> on the strings of decimal digits only, where Python's
  \<open>float\<close> gives the number written; the examples convert no other string that
  Python accepts. The case mappings change the ASCII letters only, as \<open>lower\<close>
  and \<open>capitalize\<close> do on the ASCII strings of the examples. The timestamp parser
  reads nothing and the cleaning pass changes nothing.
\<close>

definition lower_char :: "char \<Rightarrow> char" where
  "lower_char c =
     (case map_of (zip ''ABCDEFGHIJKLMNOPQRSTUVWXYZ'' ''abcdefghijklmnopqrstuvwxyz'') c of
        None \<Rightarrow> c | Some d \<Rightarrow> d)"

definition upper_char :: "char \<Rightarrow> char" where
  "upper_char c =
     (case map_of (zip ''abcdefghijklmnopqrstuvwxyz'' ''ABCDEFGHIJKLMNOPQRSTUVWXYZ'') c of
        None \<Rightarrow> c | Some d \<Rightarrow> d)"

definition ascii_lower :: "string \<Rightarrow> string" where
  "ascii_lower s = map lower_char s"

definition ascii_capitalize :: "string \<Rightarrow> string" where
  "ascii_capitalize s = (case s of [] \<Rightarrow> [] | c # cs \<Rightarrow> upper_char c # map lower_char cs)"

definition digit_value :: "char \<Rightarrow> nat option" where
  "digit_value c = map_of (zip ''0123456789'' [0, 1, 2, 3, 4, 5, 6, 7, 8, 9]) c"

fun digits_value :: "nat \<Rightarrow> string \<Rightarrow> nat option" where
  "digits_value n [] = Some n"
| "digits_value n (c # cs) =
     (case digit_value c of None \<Rightarrow> None | Some d \<Rightarrow> digits_value (10 * n + d) cs)"

definition digits_float :: "string \<Rightarrow> int option" where
  "digits_float s =
     (if s = [] then None
      else (case digits_value 0 s of None \<Rightarrow> None | Some n \<Rightarrow> Some (int n)))"

definition example_host :: "int host" where
  "example_host =
     \<lparr>float_is_zero = (\<lambda>x. x = 0),
      float_of_int = (\<lambda>n. Some n),
      float_of_str = digits_float,
      strptime = (\<lambda>s. None),
      str_lower = ascii_lower,
      str_capitalize = ascii_capitalize,
      clean_downloaded_metadata = (\<lambda>mi. mi)\<rparr>"

text \<open>The worker of the examples, as \<open>__init__\<close> leaves it, and their documents.\<close>

definition W0 :: "int worker" where
  "W0 = Worker ''https://api.audnex.us/books/B002V19RO6'' [] 0 Map.empty Map.empty"

definition series_doc :: "string \<Rightarrow> int json" where
  "series_doc pos =
     JObj [(''asin'', JStr ''B002V19RO6''), (''title'', JStr ''1984''),
       (''authors'', JArr [JObj [(''name'', JStr ''George Orwell'')]]),
       (''narrators'', JArr [JObj [(''name'', JStr ''Simon Prebble'')]]),
       (''seriesPrimary'', JObj [(''name'', JStr ''Dune''), (''position'', JStr pos)]),
       (''summary'', JStr ''A novel.''), (''image'', JStr ''https://m.example/1984.jpg'')]"

definition no_narrators_doc :: "int json" where
  "no_narrators_doc =
     JObj [(''asin'', JStr ''B002V19RO6''), (''title'', JStr ''1984''),
       (''authors'', JArr [JObj [(''name'', JStr ''George Orwell'')]]),
       (''summary'', JStr ''A novel.'')]"

definition no_title_doc :: "int json" where
  "no_title_doc =
     JObj [(''asin'', JStr ''B002V19RO6''),
       (''authors'', JArr [JObj [(''name'', JStr ''George Orwell'')]]),
       (''narrators'', JArr [JObj [(''name'', JStr ''Simon Prebble'')]]),
       (''summary'', JStr ''A novel.'')]"

text \<open>A genre table for the examples.\<close>

definition example_table :: genre_table where
  "example_table =
     [(''Fantasy'', [''fantasy'', ''fiction'']), (''Sci-Fi'', [''sf'', ''fiction''])]"

section \<open>Two points of \<open>parse_details\<close>\<close>

text \<open>
  The record after \<open>mi.set_identifier\<close> (line 108), and the worker after the cover
  block (line 138); the lemmas below express the result of \<open>parse_details\<close> with
  them.
\<close>

definition base_record :: "'f json \<Rightarrow> 'f metadata" where
  "base_record root =
     set_identifier ''audible'' (try_asin root) (Metadata (try_title root) (try_authors root))"

definition parsed_worker :: "'f json \<Rightarrow> 'f worker \<Rightarrow> 'f worker" where
  "parsed_worker root w = try_cover root (w\<lparr>self_audible_id := try_asin root\<rparr>)"

section \<open>The query builder's results\<close>

lemmas url_defs =
  ID_NAME_def AUDIBLE_API_URL_def AUDNEXUS_URL_def AUDIBLE_API_PATH_def AUDNEXUS_PATH_def
  AUDIBLE_API_QUERY_def AUDIBLE_API_TITLE_QUERY_def AUDIBLE_API_AUTHOR_QUERY_def

text \<open>
  C4: with no title, with no authors or an empty list of them, with no \<open>audible\<close>
  entry in the identifier map and with no \<open>asin\<close> argument, \<open>create_query\<close> returns
  \<open>None\<close>.
\<close>

theorem create_query_insufficient:
  assumes "title = None" and "authors = None \<or> authors = Some []"
    and "identifiers ID_NAME = None" and "asin = None"
  shows "create_query title authors identifiers asin = None"
  using assms by (auto simp: create_query_def given_def)

theorem create_query_insufficient_witness:
  "create_query None (Some []) [''isbn'' \<mapsto> ''9780451524935''] None = None"
  using create_query_insufficient
    [of None "Some []" "[''isbn'' \<mapsto> ''9780451524935'']" None]
  by (simp add: ID_NAME_def)

text \<open>
  C5: when an audible identifier is present, as the \<open>asin\<close> argument or, without
  one, in the identifier map, \<open>create_query\<close> returns the detail URL
  \<open>https://api.audnex.us/books/\<close> followed by the identifier, whatever the title and
  the authors are, and this URL does not begin like the catalog search URL. An
  identifier is present when it is a non-empty string (the source tests
  \<open>if audible_id:\<close>).
\<close>

theorem create_query_direct:
  assumes "asin = Some i \<and> i \<noteq> []
    \<or> \<not> given asin \<and> identifiers ID_NAME = Some i \<and> i \<noteq> []"
  shows "create_query title authors identifiers asin = Some (AUDNEXUS_URL @ AUDNEXUS_PATH @ i)
    \<and> AUDNEXUS_URL @ AUDNEXUS_PATH @ i = ''https://api.audnex.us/books/'' @ i
    \<and> \<not> prefix (AUDIBLE_API_URL @ AUDIBLE_API_PATH) (AUDNEXUS_URL @ AUDNEXUS_PATH @ i)"
  using assms by (auto simp: create_query_def given_def val_def Let_def url_defs)

theorem create_query_direct_witness:
  "create_query (Some ''1984'') (Some [''George Orwell'']) [''audible'' \<mapsto> ''B002V19RO6''] None
     = Some ''https://api.audnex.us/books/B002V19RO6''
   \<and> create_query (Some ''1984'') None Map.empty (Some ''B002V19RO6'')
     = Some ''https://api.audnex.us/books/B002V19RO6''"
  using create_query_direct [where asin = None and i = "''B002V19RO6''"
      and identifiers = "[''audible'' \<mapsto> ''B002V19RO6'']" and title = "Some ''1984''"
      and authors = "Some [''George Orwell'']"]
    create_query_direct [where asin = "Some ''B002V19RO6''" and i = "''B002V19RO6''"
      and identifiers = Map.empty and title = "Some ''1984''" and authors = None]
  by (simp add: given_def ID_NAME_def)

text \<open>
  C8: with no identifier (neither in the map nor as \<open>asin\<close>) and with a title or a
  non-empty list of authors, \<open>create_query\<close> returns the catalog search URL,
  followed by \<open>&title=\<close> and the title when there is a title, then by \<open>&author=\<close>
  and the first author when there are authors, both as they are given. A title or
  identifier is there when it is a non-empty string (the source tests \<open>if title:\<close>).
\<close>

theorem create_query_search:
  assumes "\<not> given (identifiers ID_NAME)" and "\<not> given asin"
    and "given title \<or> given authors"
  shows "create_query title authors identifiers asin =
    Some (''https://api.audible.com/1.0/catalog/products?num_results=25&products_sort_by=Relevance''
          @ (if given title then ''&title='' @ val title else [])
          @ (case val authors of a # rest \<Rightarrow> ''&author='' @ a | [] \<Rightarrow> []))"
  using assms
  by (auto simp: create_query_def given_def val_def Let_def url_defs
      split: option.splits list.splits)

theorem create_query_search_witness:
  "create_query (Some ''1984'') (Some [''George Orwell'', ''Another'']) Map.empty None =
     Some (''https://api.audible.com/1.0/catalog/products?num_results=25''
           @ ''&products_sort_by=Relevance&title=1984&author=George Orwell'')
   \<and> create_query None (Some [''George Orwell'']) Map.empty None =
     Some (''https://api.audible.com/1.0/catalog/products?num_results=25''
           @ ''&products_sort_by=Relevance&author=George Orwell'')"
  using create_query_search [of Map.empty None "Some ''1984''"
      "Some [''George Orwell'', ''Another'']"]
    create_query_search [of Map.empty None None "Some [''George Orwell'']"]
  by (simp add: given_def val_def)

section \<open>The results of \<open>parse_details\<close>\<close>

subsection \<open>Required fields, and the two ways out of the method\<close>

lemma field_present_asin: "field_present h root ''asin'' = truthy h (try_asin root)"
  by (simp add: field_present_def try_asin_def split: sum.splits)

lemma field_present_title: "field_present h root ''title'' = truthy h (try_title root)"
  by (simp add: field_present_def try_title_def split: sum.splits)

lemma append_names_Nil: "append_names acc [] = Inr acc"
  by simp

lemma py_iter_truthy:
  assumes "py_iter node = Inr items" and "items \<noteq> []"
  shows "truthy h node"
  using assms by (cases node) auto

lemma parse_authors_present:
  assumes "parse_authors root = Inr as" and "as \<noteq> []"
  shows "field_present h root ''authors''"
proof -
  from assms(1) obtain node items where
    node: "py_getitem root ''authors'' = Inr node" and
    items: "py_iter node = Inr items" and
    names: "append_names [] items = Inr as"
    by (auto simp: parse_authors_def bind_def split: sum.splits)
  from names assms(2) have "items \<noteq> []" by auto
  with items have "truthy h node" by (rule py_iter_truthy)
  with node show ?thesis by (simp add: field_present_def)
qed

lemma try_authors_present: "try_authors root \<noteq> [] \<Longrightarrow> field_present h root ''authors''"
  by (auto simp: try_authors_def split: sum.splits intro: parse_authors_present)

lemma parse_details_abandon:
  assumes "\<not> truthy h (try_title root) \<or> try_authors root = [] \<or> \<not> truthy h (try_asin root)"
  shows "parse_details h tbl root w = (None, w)"
  using assms by (auto simp: parse_details_def Let_def)

lemma try_frames [simp]:
  "mi_has_cover (try_tags h tbl root mi) = mi_has_cover mi"
  "mi_has_cover (try_publisher root mi) = mi_has_cover mi"
  "mi_has_cover (try_pubdate h root mi) = mi_has_cover mi"
  "mi_has_cover (try_language h root mi) = mi_has_cover mi"
  "mi_series (try_rating h root mi) = mi_series mi"
  "mi_series (try_tags h tbl root mi) = mi_series mi"
  "mi_series (try_publisher root mi) = mi_series mi"
  "mi_series (try_pubdate h root mi) = mi_series mi"
  "mi_series (try_language h root mi) = mi_series mi"
  "mi_series_index (try_rating h root mi) = mi_series_index mi"
  "mi_series_index (try_tags h tbl root mi) = mi_series_index mi"
  "mi_series_index (try_publisher root mi) = mi_series_index mi"
  "mi_series_index (try_pubdate h root mi) = mi_series_index mi"
  "mi_series_index (try_language h root mi) = mi_series_index mi"
  by (simp_all add: try_tags_def try_publisher_def try_pubdate_def try_language_def
      try_rating_def split: sum.splits option.splits)

lemma parse_details_emit:
  assumes "truthy h (try_title root)" and "try_authors root \<noteq> []" and "truthy h (try_asin root)"
    and "build_comments (try_narrators root) (try_summary root) = Inr c"
    and "fst (cache_results h (parsed_worker root w)) = None"
  shows "\<exists>mi. parse_details h tbl root w =
           (None, (snd (cache_results h (parsed_worker root w)))
                    \<lparr>self_result_queue :=
                       self_result_queue (snd (cache_results h (parsed_worker root w)))
                         @ [clean_downloaded_metadata h mi]\<rparr>)
         \<and> mi_has_cover mi = Some (truthy h (self_cover_url (parsed_worker root w)))
         \<and> mi_series mi = mi_series (try_series h root (base_record root))
         \<and> mi_series_index mi = mi_series_index (try_series h root (base_record root))"
proof -
  obtain w2 where w2: "cache_results h (parsed_worker root w) = (None, w2)"
    using assms(5) by (cases "cache_results h (parsed_worker root w)") simp
  show ?thesis
    using assms(1-4) w2
    apply (simp add: parse_details_def Let_def parsed_worker_def base_record_def)
    apply (intro exI conjI)
       apply (rule refl)
      apply simp_all
    done
qed

lemma parse_details_raise:
  assumes "truthy h (try_title root)" and "try_authors root \<noteq> []" and "truthy h (try_asin root)"
    and "build_comments (try_narrators root) (try_summary root) = Inl e"
  shows "parse_details h tbl root w = (Some e, parsed_worker root w)"
  using assms by (simp add: parse_details_def Let_def parsed_worker_def)

lemma parse_details_cache_raise:
  assumes "truthy h (try_title root)" and "try_authors root \<noteq> []" and "truthy h (try_asin root)"
    and "build_comments (try_narrators root) (try_summary root) = Inr c"
    and "fst (cache_results h (parsed_worker root w)) = Some e"
  shows "parse_details h tbl root w = (Some e, snd (cache_results h (parsed_worker root w)))"
proof -
  obtain w2 where w2: "cache_results h (parsed_worker root w) = (Some e, w2)"
    using assms(5) by (cases "cache_results h (parsed_worker root w)") simp
  show ?thesis
    using assms(1-4) w2 by (simp add: parse_details_def Let_def parsed_worker_def)
qed

lemma parsed_worker_fields [simp]:
  "self_result_queue (parsed_worker root w) = self_result_queue w"
  "identifier_to_cover_url (parsed_worker root w) = identifier_to_cover_url w"
  "self_audible_id (parsed_worker root w) = try_asin root"
  "self_isbn (parsed_worker root w) = self_isbn w"
  "self_cover_url (parsed_worker root w) =
     (case py_getitem root ''image'' of Inl e \<Rightarrow> self_cover_url w | Inr v \<Rightarrow> v)"
  by (simp_all add: parsed_worker_def try_cover_def split: sum.splits)

lemma cache_results_queue [simp]:
  "self_result_queue (snd (cache_results h w)) = self_result_queue w"
  by (simp add: cache_results_def cache_isbn_to_identifier_def
      cache_identifier_to_cover_url_def)

lemma cache_results_covers:
  assumes "fst (cache_results h w) = None"
  shows "identifier_to_cover_url (snd (cache_results h w)) =
     (if truthy h (self_audible_id w) \<and> truthy h (self_cover_url w)
      then (identifier_to_cover_url w)(self_audible_id w \<mapsto> self_cover_url w)
      else identifier_to_cover_url w)"
  using assms
  by (simp add: cache_results_def cache_isbn_to_identifier_def
      cache_identifier_to_cover_url_def split: if_splits)


subsection \<open>The claims on the emitted record\<close>

text \<open>
  C2: \<open>parse_details\<close> puts a record on the result queue only if the identifier,
  the title and the authors field of the document are all present and non-empty;
  if one of the three is missing or empty, the method returns with the queue and
  the rest of the state as they were, whatever the other fields hold.
\<close>

theorem emitted_only_with_required:
  "(\<not> (field_present h root ''asin'' \<and> field_present h root ''title''
        \<and> field_present h root ''authors'')
      \<longrightarrow> parse_details h tbl root w = (None, w))
   \<and> (self_result_queue (snd (parse_details h tbl root w)) \<noteq> self_result_queue w
      \<longrightarrow> field_present h root ''asin'' \<and> field_present h root ''title''
          \<and> field_present h root ''authors'')"
proof -
  have abandon: "parse_details h tbl root w = (None, w)"
    if "\<not> (field_present h root ''asin'' \<and> field_present h root ''title''
        \<and> field_present h root ''authors'')"
  proof (rule parse_details_abandon)
    from that try_authors_present [of root h]
    show "\<not> truthy h (try_title root) \<or> try_authors root = [] \<or> \<not> truthy h (try_asin root)"
      by (auto simp: field_present_asin field_present_title)
  qed
  show ?thesis
  proof (intro conjI impI)
    assume "\<not> (field_present h root ''asin'' \<and> field_present h root ''title''
        \<and> field_present h root ''authors'')"
    then show "parse_details h tbl root w = (None, w)" by (rule abandon)
  next
    assume changed: "self_result_queue (snd (parse_details h tbl root w)) \<noteq> self_result_queue w"
    have "field_present h root ''asin'' \<and> field_present h root ''title''
        \<and> field_present h root ''authors''"
    proof (rule ccontr)
      assume "\<not> (field_present h root ''asin'' \<and> field_present h root ''title''
        \<and> field_present h root ''authors'')"
      then have "parse_details h tbl root w = (None, w)" by (rule abandon)
      with changed show False by simp
    qed
    then show "field_present h root ''asin''" "field_present h root ''title''"
      "field_present h root ''authors''" by simp_all
  qed
qed

theorem emitted_only_with_required_witness:
  "\<not> field_present example_host no_title_doc ''title''
   \<and> parse_details example_host [] no_title_doc W0 = (None, W0)
   \<and> self_result_queue (snd (parse_details example_host [] (series_doc ''Book 3'') W0))
        \<noteq> self_result_queue W0
   \<and> field_present example_host (series_doc ''Book 3'') ''asin''
   \<and> field_present example_host (series_doc ''Book 3'') ''title''
   \<and> field_present example_host (series_doc ''Book 3'') ''authors''"
proof -
  have a: "\<not> field_present example_host no_title_doc ''title''"
    by code_simp
  have b: "self_result_queue (snd (parse_details example_host [] (series_doc ''Book 3'') W0))
        \<noteq> self_result_queue W0"
    by code_simp
  from a b emitted_only_with_required [of example_host no_title_doc "[]" W0]
    emitted_only_with_required [of example_host "series_doc ''Book 3''" "[]" W0]
  show ?thesis by blast
qed

text \<open>
  C1, for the narrators: the claim is that a failing optional field leaves the
  record emitted. In the code, a document with the required fields whose
  narrators cannot be extracted makes \<open>parse_details\<close> raise \<open>UnboundLocalError\<close>
  (the handler leaves \<open>narrators\<close> unbound and line 164 reads it), and nothing is
  put on the queue.
\<close>

theorem narrators_failure_aborts:
  assumes "field_present h root ''asin''" and "field_present h root ''title''"
    and "parse_authors root = Inr as" and "as \<noteq> []"
    and "parse_narrators root = Inl e"
  shows "fst (parse_details h tbl root w) = Some UnboundLocalError
    \<and> self_result_queue (snd (parse_details h tbl root w)) = self_result_queue w"
proof -
  from assms(5) have "build_comments (try_narrators root) (try_summary root) = Inl UnboundLocalError"
    by (simp add: build_comments_def try_narrators_def)
  moreover from assms(3,4) have "try_authors root \<noteq> []" by (simp add: try_authors_def)
  ultimately have "parse_details h tbl root w = (Some UnboundLocalError, parsed_worker root w)"
    using assms(1,2) by (intro parse_details_raise) (simp_all add: field_present_asin field_present_title)
  then show ?thesis by simp
qed

theorem narrators_failure_aborts_witness:
  "parse_narrators no_narrators_doc = Inl KeyError
   \<and> fst (parse_details example_host [] no_narrators_doc W0) = Some UnboundLocalError
   \<and> self_result_queue (snd (parse_details example_host [] no_narrators_doc W0)) = []"
proof -
  have 1: "field_present example_host no_narrators_doc ''asin''" by code_simp
  have 2: "field_present example_host no_narrators_doc ''title''" by code_simp
  have 3: "parse_authors no_narrators_doc = Inr [JStr ''George Orwell'']" by code_simp
  have 4: "parse_narrators no_narrators_doc = Inl KeyError" by code_simp
  have 5: "self_result_queue W0 = []" by code_simp
  from narrators_failure_aborts [OF 1 2 3 _ 4, of "[]" W0] 4 5 show ?thesis by simp
qed

text \<open>
  C9: for a worker as \<open>__init__\<close> leaves it (\<open>cover_url\<close> is \<open>None\<close>), every record
  that \<open>parse_details\<close> emits has \<open>has_cover\<close> set to whether the document's image
  field is present and non-empty, and the cache of cover URLs gets the entry from
  the identifier to the image exactly in that case (the identifier of an emitted
  record is always present); otherwise the cache stays as it was. The record is
  the one handed to calibre's cleaning pass before it is queued.
\<close>

theorem has_cover_and_cache:
  assumes fresh: "self_cover_url w = JNull"
    and ret: "parse_details h tbl root w = (None, w')"
    and emitted: "self_result_queue w' \<noteq> self_result_queue w"
  shows "\<exists>mi aid. py_getitem root ''asin'' = Inr aid \<and> truthy h aid
      \<and> self_result_queue w' = self_result_queue w @ [clean_downloaded_metadata h mi]
      \<and> mi_has_cover mi = Some (field_present h root ''image'')
      \<and> identifier_to_cover_url w' =
          (case py_getitem root ''image'' of
             Inl e \<Rightarrow> identifier_to_cover_url w
           | Inr cover \<Rightarrow>
               if truthy h cover then (identifier_to_cover_url w)(aid \<mapsto> cover)
               else identifier_to_cover_url w)"
proof -
  have req: "truthy h (try_title root)" "try_authors root \<noteq> []" "truthy h (try_asin root)"
    using ret emitted parse_details_abandon [of h root tbl w] by auto
  from req(3) obtain aid where aid: "py_getitem root ''asin'' = Inr aid" "truthy h aid"
    "try_asin root = aid"
    by (auto simp: try_asin_def split: sum.splits)
  obtain c where c: "build_comments (try_narrators root) (try_summary root) = Inr c"
    using ret parse_details_raise [OF req, of _ tbl w]
    by (cases "build_comments (try_narrators root) (try_summary root)") auto
  have cached: "fst (cache_results h (parsed_worker root w)) = None"
    using ret parse_details_cache_raise [OF req c, of w _ tbl]
    by (cases "fst (cache_results h (parsed_worker root w))") auto
  from parse_details_emit [OF req c cached, of tbl] ret obtain mi where
    w': "w' = (snd (cache_results h (parsed_worker root w)))
                    \<lparr>self_result_queue :=
                       self_result_queue (snd (cache_results h (parsed_worker root w)))
                         @ [clean_downloaded_metadata h mi]\<rparr>"
    and cov: "mi_has_cover mi = Some (truthy h (self_cover_url (parsed_worker root w)))"
    by auto
  have img: "truthy h (self_cover_url (parsed_worker root w)) = field_present h root ''image''"
    using fresh by (simp add: field_present_def split: sum.splits)
  have covers: "identifier_to_cover_url w' =
      (if truthy h (self_cover_url (parsed_worker root w))
       then (identifier_to_cover_url w)(aid \<mapsto> self_cover_url (parsed_worker root w))
       else identifier_to_cover_url w)"
    using cache_results_covers [OF cached] aid by (simp add: w')
  show ?thesis
    apply (rule exI [of _ mi], rule exI [of _ aid])
    using aid cov img fresh covers
    by (auto simp: w' split: sum.splits)
qed

theorem has_cover_and_cache_witness:
  "self_cover_url W0 = JNull
   \<and> fst (parse_details example_host [] (series_doc ''Book 3'') W0) = None
   \<and> map mi_has_cover
         (self_result_queue (snd (parse_details example_host [] (series_doc ''Book 3'') W0)))
       = [Some True]
   \<and> identifier_to_cover_url (snd (parse_details example_host [] (series_doc ''Book 3'') W0))
       = [JStr ''B002V19RO6'' \<mapsto> JStr ''https://m.example/1984.jpg'']"
proof -
  let ?r = "parse_details example_host [] (series_doc ''Book 3'') W0"
  have fresh: "self_cover_url W0 = JNull"
    by code_simp
  have none: "fst ?r = None"
    by code_simp
  then have ret: "?r = (None, snd ?r)"
    by (simp add: prod_eq_iff)
  have emitted: "self_result_queue (snd ?r) \<noteq> self_result_queue W0"
    by code_simp
  have img: "field_present example_host (series_doc ''Book 3'') ''image''"
    by code_simp
  have asin: "py_getitem (series_doc ''Book 3'') ''asin'' = Inr (JStr ''B002V19RO6'')"
    by code_simp
  have cover: "py_getitem (series_doc ''Book 3'') ''image''
      = Inr (JStr ''https://m.example/1984.jpg'')"
    by code_simp
  have start: "self_result_queue W0 = []" "identifier_to_cover_url W0 = Map.empty"
    by (simp_all add: W0_def Worker_def)
  have clean: "clean_downloaded_metadata example_host mi = mi" for mi
    by (simp add: example_host_def)
  from has_cover_and_cache [OF fresh ret emitted] obtain mi aid where
    "py_getitem (series_doc ''Book 3'') ''asin'' = Inr aid"
    "self_result_queue (snd ?r) = self_result_queue W0 @ [clean_downloaded_metadata example_host mi]"
    "mi_has_cover mi = Some (field_present example_host (series_doc ''Book 3'') ''image'')"
    "identifier_to_cover_url (snd ?r) =
       (case py_getitem (series_doc ''Book 3'') ''image'' of
          Inl e \<Rightarrow> identifier_to_cover_url W0
        | Inr cover \<Rightarrow>
            if truthy example_host cover then (identifier_to_cover_url W0)(aid \<mapsto> cover)
            else identifier_to_cover_url W0)"
    by blast
  with fresh none img asin cover start clean show ?thesis
    by simp
qed

subsection \<open>The series\<close>


lemma base_record_series [simp]:
  "mi_series (base_record root) = None" "mi_series_index (base_record root) = None"
  by (simp_all add: base_record_def set_identifier_def Metadata_def)


text \<open>
  C7, as amended: for every document whose series node is a non-empty dictionary
  with a name and a position string, where the position, split at each single
  space character as \<open>split(' ')\<close> does, has at least two pieces and \<open>float\<close>
  accepts the second piece, \<open>parse_series\<close> returns the name and that float; the
  pieces of \<open>Book 3\<close> are \<open>Book\<close> and \<open>3\<close>.
\<close>

theorem parse_series_second_piece:
  assumes "py_getitem root ''seriesPrimary'' = Inr node" and "truthy h node"
    and "py_getitem node ''name'' = Inr series_name"
    and "py_getitem node ''position'' = Inr (JStr pos)"
    and "split_sp pos = first # second # rest"
    and "float_of_str h second = Some x"
  shows "parse_series h root = Inr (series_name, Some x)
    \<and> split_sp ''Book 3'' = [''Book'', ''3'']"
  using assms by (simp add: parse_series_def bind_def py_index_def)

text \<open>
  With \<open>float('3') = 3.0\<close>, the position \<open>Book 3\<close> gives the index 3.
\<close>

theorem parse_series_second_piece_witness:
  "parse_series example_host (series_doc ''Book 3'') = Inr (JStr ''Dune'', Some 3)"
proof -
  have 1: "py_getitem (series_doc ''Book 3'') ''seriesPrimary''
      = Inr (JObj [(''name'', JStr ''Dune''), (''position'', JStr ''Book 3'')])"
    by code_simp
  have 2: "truthy example_host (JObj [(''name'', JStr ''Dune''), (''position'', JStr ''Book 3'')])"
    by simp
  have 3: "py_getitem (JObj [(''name'', JStr ''Dune''), (''position'', JStr ''Book 3'')]) ''name''
      = Inr (JStr ''Dune'' :: int json)"
    by simp
  have 4: "py_getitem (JObj [(''name'', JStr ''Dune''), (''position'', JStr ''Book 3'')])
      ''position'' = Inr (JStr ''Book 3'' :: int json)"
    by simp
  have 5: "split_sp ''Book 3'' = ''Book'' # ''3'' # []"
    by simp
  have 6: "float_of_str example_host ''3'' = Some 3"
    by code_simp
  from parse_series_second_piece [OF 1 2 3 4 5 6] show ?thesis by simp
qed

text \<open>
  The claim C7 as it is worded fails: the position \<open>Book\<close>, two spaces, \<open>3\<close> has
  the two whitespace-separated tokens \<open>Book\<close> and \<open>3\<close>, the second of them
  numeric, and \<open>parse_series\<close> raises \<open>ValueError\<close>, since the second piece of
  \<open>split(' ')\<close> is the empty string.
\<close>

theorem parse_series_whitespace_counterexample:
  "ws_tokens ''Book  3'' = [''Book'', ''3'']
   \<and> float_of_str example_host ''3'' = Some 3
   \<and> parse_series example_host (series_doc ''Book  3'') = Inl ValueError"
  by code_simp




section \<open>The result of \<open>download_cover\<close> without a cached cover\<close>

text \<open>
  C3: the claim is that \<open>download_cover\<close>, when the cache holds no cover URL for
  the identifier, runs the identify flow and never lets an exception reach its
  caller. In the code the call of \<open>identify\<close> passes the keyword \<open>hiddenauthors\<close>,
  which \<open>identify\<close> does not have: the call raises \<open>TypeError\<close> before the body of
  \<open>identify\<close> runs, under no \<open>try\<close>, whatever the flow would have found.
\<close>

theorem download_cover_uncached_raises:
  assumes "get_cached_cover_url cache identifiers = None"
  shows "download_cover cache identify_body sort_results open_novisit abort identifiers
    = Inl TypeError"
  using assms
  by (simp add: download_cover_def call_with_keywords_def identify_params_def bind_def)

theorem download_cover_uncached_raises_witness:
  "download_cover Map.empty
     (Inr ([Metadata (JStr ''1984'') [JStr ''George Orwell'']],
           [JStr ''B002V19RO6'' \<mapsto> JStr ''https://m.example/1984.jpg'']))
     id Some False [''audible'' \<mapsto> JStr ''B002V19RO6'']
   = (Inl TypeError :: pyerr + int json option)"
  using download_cover_uncached_raises [of Map.empty "[''audible'' \<mapsto> JStr ''B002V19RO6'']"]
  by (simp add: get_cached_cover_url_def ID_NAME_def)

section \<open>The tags of a list of genres\<close>

subsection \<open>First occurrences\<close>

lemma set_first_seen [simp]: "set (first_seen xs) = set xs"
  by (induction xs) auto

lemma distinct_first_seen [simp]: "distinct (first_seen xs)"
  by (induction xs) auto

lemma first_seen_filter: "first_seen (filter P xs) = filter P (first_seen xs)"
proof (induction xs)
  case Nil
  show ?case by simp
next
  case (Cons x xs)
  show ?case
  proof (cases "P x")
    case True
    with Cons show ?thesis
      by (simp add: conj_commute)
  next
    case False
    then have "filter P (filter (\<lambda>y. y \<noteq> x) (first_seen xs)) = filter P (first_seen xs)"
      by (auto intro: filter_cong)
    with False Cons show ?thesis
      by simp
  qed
qed

lemma first_seen_append:
  "first_seen (xs @ ys) = first_seen xs @ filter (\<lambda>y. y \<notin> set xs) (first_seen ys)"
  by (induction xs) (auto simp: conj_commute)

lemma add_tags_first_seen:
  "add_tags acc tags = acc @ first_seen (filter (\<lambda>t. t \<notin> set acc) tags)"
proof (induction tags arbitrary: acc)
  case Nil
  show ?case by simp
next
  case (Cons t tags)
  show ?case
  proof (cases "t \<in> set acc")
    case True
    with Cons show ?thesis by simp
  next
    case False
    have "filter (\<lambda>u. u \<notin> set (acc @ [t])) tags
        = filter (\<lambda>u. u \<noteq> t) (filter (\<lambda>u. u \<notin> set acc) tags)"
      by (auto intro: filter_cong)
    with False Cons [of "acc @ [t]"] show ?thesis
      by (simp add: first_seen_filter conj_commute)
  qed
qed

lemma add_tags_append:
  "add_tags (add_tags acc xs) ys = add_tags acc (xs @ ys)"
  by (induction xs arbitrary: acc) simp_all

lemma convert_loop_add_tags:
  "convert_loop h m acc (map JStr genres) =
     Inr (add_tags acc
            (concat (map (\<lambda>g. case m (str_lower h g) of None \<Rightarrow> [] | Some tags \<Rightarrow> tags) genres)))"
proof (induction genres arbitrary: acc)
  case Nil
  show ?case by simp
next
  case (Cons g genres)
  show ?case
    by (cases "m (str_lower h g)") (simp_all add: Cons add_tags_append)
qed

lemma fold_tag_map:
  "fold (\<lambda>(k, v) m. m(str_lower h k \<mapsto> v)) tbl m0
     = m0 ++ map_of (rev (map (\<lambda>p. (str_lower h (fst p), snd p)) tbl))"
proof (induction tbl arbitrary: m0)
  case Nil
  show ?case by simp
next
  case (Cons p tbl)
  obtain k v where p: "p = (k, v)" by (cases p)
  let ?step = "\<lambda>(k, v) m. m(str_lower h k \<mapsto> v)"
  let ?items = "rev (map (\<lambda>p. (str_lower h (fst p), snd p)) tbl)"
  have items: "rev (map (\<lambda>p. (str_lower h (fst p), snd p)) (p # tbl)) = ?items @ [(str_lower h k, v)]"
    by (simp add: p)
  have step: "?step p m0 = m0(str_lower h k \<mapsto> v)"
    by (simp add: p)
  have "fold ?step (p # tbl) m0 = fold ?step tbl (m0(str_lower h k \<mapsto> v))"
    by (simp only: fold_simps step)
  also have "\<dots> = m0(str_lower h k \<mapsto> v) ++ map_of ?items"
    by (rule Cons)
  also have "\<dots> = m0 ++ map_of (?items @ [(str_lower h k, v)])"
    by (rule ext) (simp add: map_add_def split: option.splits)
  finally show ?case
    by (simp only: items)
qed

lemma calibre_tag_map_last:
  "calibre_tag_map h tbl = map_of (rev (map (\<lambda>p. (str_lower h (fst p), snd p)) tbl))"
  by (simp add: calibre_tag_map_def fold_tag_map)

lemma calibre_tag_map_match:
  assumes "(k, tags) \<in> set tbl" and "distinct (map (\<lambda>p. str_lower h (fst p)) tbl)"
    and "str_lower h g = str_lower h k"
  shows "calibre_tag_map h tbl (str_lower h g) = Some tags"
proof -
  let ?items = "rev (map (\<lambda>p. (str_lower h (fst p), snd p)) tbl)"
  from assms(2) have "distinct (map fst ?items)"
    by (simp add: rev_map [symmetric] comp_def)
  moreover from assms(1) have "(str_lower h k, tags) \<in> set ?items"
    by force
  ultimately have "map_of ?items (str_lower h k) = Some tags"
    by (rule map_of_is_SomeI)
  with assms(3) show ?thesis
    by (simp add: calibre_tag_map_last)
qed

lemma calibre_tag_map_no_match:
  assumes "\<forall>p \<in> set tbl. str_lower h (fst p) \<noteq> str_lower h g"
  shows "calibre_tag_map h tbl (str_lower h g) = None"
  using assms by (force simp: calibre_tag_map_last map_of_eq_None_iff)

lemma count_list_distinct:
  "distinct xs \<Longrightarrow> count_list xs t = (if t \<in> set xs then 1 else 0)"
  by (induction xs) auto

text \<open>
  C6: for every list of genre strings and every genre table,
  \<open>_convert_genres_to_calibre_tags\<close> returns the tags that the genres map to, each
  exactly once and where it is first seen; a genre matches a key of the table
  when \<open>lower\<close> maps the two to the same string, whatever Python's \<open>lower\<close> is on
  them (with keys that differ up to case, which is what a user's table has, the
  genre gets that key's tags), and a genre that matches no key adds nothing.
\<close>

theorem genres_to_tags_first_seen:
  "convert_genres_to_calibre_tags h tbl (map JStr genres) = Inr (first_seen (mapped_tags h tbl genres))
   \<and> (\<forall>t. count_list (first_seen (mapped_tags h tbl genres)) t
          = (if t \<in> set (mapped_tags h tbl genres) then 1 else 0))
   \<and> (\<forall>g k tags. (k, tags) \<in> set tbl \<and> distinct (map (\<lambda>p. str_lower h (fst p)) tbl)
          \<and> str_lower h g = str_lower h k \<longrightarrow> calibre_tag_map h tbl (str_lower h g) = Some tags)
   \<and> (\<forall>g. (\<forall>p \<in> set tbl. str_lower h (fst p) \<noteq> str_lower h g) \<longrightarrow> calibre_tag_map h tbl (str_lower h g) = None)"
proof (intro conjI allI impI)
  show "convert_genres_to_calibre_tags h tbl (map JStr genres)
      = Inr (first_seen (mapped_tags h tbl genres))"
    by (simp add: convert_genres_to_calibre_tags_def convert_loop_add_tags add_tags_first_seen
        mapped_tags_def)
next
  fix t
  have "distinct (first_seen (mapped_tags h tbl genres))" by simp
  then show "count_list (first_seen (mapped_tags h tbl genres)) t
      = (if t \<in> set (mapped_tags h tbl genres) then 1 else 0)"
    by (simp add: count_list_distinct)
next
  fix g k tags
  assume "(k, tags) \<in> set tbl \<and> distinct (map (\<lambda>p. str_lower h (fst p)) tbl) \<and> str_lower h g = str_lower h k"
  then show "calibre_tag_map h tbl (str_lower h g) = Some tags"
    by (blast intro: calibre_tag_map_match)
next
  fix g
  assume "\<forall>p \<in> set tbl. str_lower h (fst p) \<noteq> str_lower h g"
  then show "calibre_tag_map h tbl (str_lower h g) = None"
    by (rule calibre_tag_map_no_match)
qed

theorem genres_to_tags_first_seen_witness:
  "convert_genres_to_calibre_tags example_host example_table
     (map JStr [''FANTASY'', ''sci-fi'', ''Romance'']
        :: int json list) = Inr [''fantasy'', ''fiction'', ''sf'']
   \<and> count_list [''fantasy'', ''fiction'', ''sf''] ''fiction'' = 1
   \<and> calibre_tag_map example_host example_table (ascii_lower ''FANTASY'') = Some [''fantasy'', ''fiction'']
   \<and> calibre_tag_map example_host example_table (ascii_lower ''Romance'') = None"
proof -
  have tags: "mapped_tags example_host example_table [''FANTASY'', ''sci-fi'', ''Romance'']
      = [''fantasy'', ''fiction'', ''sf'', ''fiction'']"
    by code_simp
  have seen: "first_seen [''fantasy'', ''fiction'', ''sf'', ''fiction'']
      = [''fantasy'', ''fiction'', ''sf'']"
    by simp
  have item: "(''Fantasy'', [''fantasy'', ''fiction'']) \<in> set example_table"
    by (simp add: example_table_def)
  have keys: "distinct (map (\<lambda>p. str_lower example_host (fst p)) example_table)"
    by code_simp
  have same: "str_lower example_host ''FANTASY'' = str_lower example_host ''Fantasy''"
    by code_simp
  have low: "str_lower example_host = ascii_lower"
    by (simp add: example_host_def)
  have none: "\<forall>p \<in> set example_table. str_lower example_host (fst p) \<noteq> str_lower example_host ''Romance''"
    by code_simp
  from genres_to_tags_first_seen
    [of example_host example_table "[''FANTASY'', ''sci-fi'', ''Romance'']"]
    tags seen item keys same none low
  show ?thesis
    by (simp del: set_simps)
qed

end
